theory Spec2Isabelle
  imports Main "HOL-Library.Word"
begin

section \<open>Shared data: errors, headers, URLs, requests, responses\<close>

text \<open>
  A Go \<^verbatim>\<open>error\<close> value is carried by its message. A panic is a separate kind of
  exit and is never confused with a returned error.
\<close>

datatype error = Error string

datatype panic_value =
    NilFuncCall                \<comment> \<open>calling a nil function value\<close>
  | PanicValue string          \<comment> \<open>any other value passed to \<^verbatim>\<open>panic\<close>\<close>

text \<open>
  \<^verbatim>\<open>http.Header\<close> is \<^verbatim>\<open>map[string][]string\<close>. A header that is written to (the one
  of a request, a response or a response writer) is the map itself, \<open>string \<rightharpoonup> string list\<close>;
  it is taken to be allocated, as it is for every request that \<^verbatim>\<open>net/http\<close> hands to a
  handler, for \<^verbatim>\<open>http.NewRequest\<close> and for \<^verbatim>\<open>httptest.NewRecorder\<close>.

  A header that is only ranged over (a merge source) is the list of its entries in the
  order in which \<^verbatim>\<open>range\<close> visits them: Go leaves that order unspecified, so every
  statement about a merge is made for every order. The keys of a map are distinct; the
  nil map has no entries and is \<open>[]\<close>.
\<close>

type_synonym header = "string \<rightharpoonup> string list"

type_synonym header_source = "(string \<times> string list) list"

record url =
  url_Scheme :: string
  url_Host :: string
  url_Path :: string

record request =
  req_Method :: string
  req_URL :: url
  req_Host :: string
  req_Header :: header

record response =
  resp_StatusCode :: nat
  resp_Header :: header
  resp_Request :: request

text \<open>
  \<^verbatim>\<open>type ResponseModifier func(*http.Response) error\<close>: the function may change the
  response it points to and returns an error or nil. A nil function value is \<open>None\<close>
  in the field that holds it.
\<close>

type_synonym ResponseModifier = "response \<Rightarrow> response \<times> error option"

section \<open>route.go\<close>

record Route =
  Method :: "string list"
  Path :: string
  RewritePath :: string
  RequestHeader :: header_source
  ModifyResponse :: "ResponseModifier option"

text \<open>
  \<^verbatim>\<open>strings.Split(s, sep)\<close> of the Go library, for a separator of one byte: while
  the separator occurs in \<open>s\<close>, the text before its first occurrence is the next element
  and the loop goes on after it; what is left is the last element.
\<close>

function strings_Split :: "string \<Rightarrow> char \<Rightarrow> string list" where
  "strings_Split s sep =
     (if sep \<in> set s
      then takeWhile (\<lambda>c. c \<noteq> sep) s # strings_Split (tl (dropWhile (\<lambda>c. c \<noteq> sep) s)) sep
      else [s])"
  by pat_completeness auto
termination
proof (relation "measure (\<lambda>(s, sep). length s)")
  show "wf (measure (\<lambda>(s, sep). length s))" by simp
next
  fix s :: string and sep :: char
  assume "sep \<in> set s"
  then have "dropWhile (\<lambda>c. c \<noteq> sep) s \<noteq> []" by simp
  then have "length (tl (dropWhile (\<lambda>c. c \<noteq> sep) s)) < length (dropWhile (\<lambda>c. c \<noteq> sep) s)"
    by (cases "dropWhile (\<lambda>c. c \<noteq> sep) s") simp_all
  also have "\<dots> \<le> length s" by (rule length_dropWhile_le)
  finally show "((tl (dropWhile (\<lambda>c. c \<noteq> sep) s), sep), (s, sep)) \<in> measure (\<lambda>(s, sep). length s)"
    by simp
qed

declare strings_Split.simps [simp del]

definition methodStringToSlice :: "string \<Rightarrow> string list" where
  "methodStringToSlice methods =
     (if methods = ''*''
      then [''GET'', ''HEAD'', ''OPTIONS'', ''POST'', ''PUT'', ''PATCH'', ''DELETE'']
      else strings_Split methods (CHR ''|''))"

definition NewRoute :: "string \<Rightarrow> string \<Rightarrow> Route" where
  "NewRoute methods path =
     \<lparr>Method = methodStringToSlice methods, Path = path, RewritePath = [],
      RequestHeader = [], ModifyResponse = None\<rparr>"

text \<open>
  The three setters have a value receiver: the method body works on its own copy \<open>r\<close>
  of the caller's struct, assigns one field of the copy and returns the copy.
\<close>

definition SetRewritePath :: "Route \<Rightarrow> string \<Rightarrow> Route" where
  "SetRewritePath r path = r\<lparr>RewritePath := path\<rparr>"

definition SetRequestHeader :: "Route \<Rightarrow> header_source \<Rightarrow> Route" where
  "SetRequestHeader r header = r\<lparr>RequestHeader := header\<rparr>"

definition SetModifyResponse :: "Route \<Rightarrow> ResponseModifier option \<Rightarrow> Route" where
  "SetModifyResponse r modifier = r\<lparr>ModifyResponse := modifier\<rparr>"

text \<open>
  A caller's frame around a setter call: \<open>recv\<close> is the caller's variable holding the
  Route the method is called on, \<open>got\<close> the variable the result is assigned to
  (\<^verbatim>\<open>got := recv.SetRewritePath(path)\<close>). Go passes the receiver by value, so the call
  reads \<open>recv\<close> and writes \<open>got\<close> only. A call statement whose result is dropped
  (\<^verbatim>\<open>recv.SetRewritePath(path)\<close>, as in the repository's \<^verbatim>\<open>TestRoute_SetModifyResponse\<close>)
  writes no variable of the caller at all.
\<close>

record frame =
  recv :: Route
  got :: "Route option"

definition assign_SetRewritePath :: "frame \<Rightarrow> string \<Rightarrow> frame" where
  "assign_SetRewritePath f path = f\<lparr>got := Some (SetRewritePath (recv f) path)\<rparr>"

definition assign_SetRequestHeader :: "frame \<Rightarrow> header_source \<Rightarrow> frame" where
  "assign_SetRequestHeader f header = f\<lparr>got := Some (SetRequestHeader (recv f) header)\<rparr>"

definition assign_SetModifyResponse :: "frame \<Rightarrow> ResponseModifier option \<Rightarrow> frame" where
  "assign_SetModifyResponse f modifier = f\<lparr>got := Some (SetModifyResponse (recv f) modifier)\<rparr>"

definition discard_SetRewritePath :: "frame \<Rightarrow> string \<Rightarrow> frame" where
  "discard_SetRewritePath f path = (let _ = SetRewritePath (recv f) path in f)"

definition discard_SetRequestHeader :: "frame \<Rightarrow> header_source \<Rightarrow> frame" where
  "discard_SetRequestHeader f header = (let _ = SetRequestHeader (recv f) header in f)"

definition discard_SetModifyResponse :: "frame \<Rightarrow> ResponseModifier option \<Rightarrow> frame" where
  "discard_SetModifyResponse f modifier = (let _ = SetModifyResponse (recv f) modifier in f)"

text \<open>The text \<^verbatim>\<open>A|B|C\<close> of a list of tokens: the tokens with one bar between neighbours.\<close>

fun bar_joined :: "string list \<Rightarrow> string" where
  "bar_joined [] = []"
| "bar_joined [t] = t"
| "bar_joined (t # u # ts) = t @ CHR ''|'' # bar_joined (u # ts)"

section \<open>httputil/header.go\<close>

text \<open>
  \<^verbatim>\<open>MergeRequestHeaders\<close> and \<^verbatim>\<open>MergeResponseHeaders\<close> store into the target map
  directly: \<^verbatim>\<open>r.Header[k] = v\<close> for every entry of every source, the sources in the
  order given. \<open>assign_entries\<close> is the inner loop, over the entries of one source.
\<close>

definition assign_entries :: "header_source \<Rightarrow> header \<Rightarrow> header" where
  "assign_entries header h = fold (\<lambda>(k, v) h. h(k \<mapsto> v)) header h"

definition MergeRequestHeaders :: "request \<Rightarrow> header_source list \<Rightarrow> request" where
  "MergeRequestHeaders r headers = r\<lparr>req_Header := fold assign_entries headers (req_Header r)\<rparr>"

definition MergeResponseHeaders :: "response \<Rightarrow> header_source list \<Rightarrow> response" where
  "MergeResponseHeaders r headers = r\<lparr>resp_Header := fold assign_entries headers (resp_Header r)\<rparr>"

text \<open>
  \<^verbatim>\<open>Header.Set\<close> and \<^verbatim>\<open>Header.Add\<close> of \<^verbatim>\<open>net/http\<close> store under the canonical
  form of the key. The canonicalisation (\<^verbatim>\<open>textproto.CanonicalMIMEHeaderKey\<close>) belongs to
  the Go library and is the parameter \<open>canon\<close>. \<^verbatim>\<open>Set\<close> replaces the list by the one
  value; \<^verbatim>\<open>Add\<close> appends to the list, the missing list being empty.
\<close>

definition Header_Set :: "(string \<Rightarrow> string) \<Rightarrow> header \<Rightarrow> string \<Rightarrow> string \<Rightarrow> header" where
  "Header_Set canon h key val = h(canon key \<mapsto> [val])"

definition Header_Add :: "(string \<Rightarrow> string) \<Rightarrow> header \<Rightarrow> string \<Rightarrow> string \<Rightarrow> header" where
  "Header_Add canon h key val =
     h(canon key \<mapsto> (case h (canon key) of None \<Rightarrow> [] | Some vs \<Rightarrow> vs) @ [val])"

text \<open>
  The innermost loop of \<^verbatim>\<open>MergeResponseWriterHeaders\<close>,
  \<^verbatim>\<open>for i, line := range lines\<close>: index 0 is set, every later index is added.
  The sink \<open>w\<close> is the map that \<^verbatim>\<open>w.Header()\<close> returns. \<open>merge_entries\<close> is the
  loop over the entries of one source.
\<close>

fun merge_lines :: "(string \<Rightarrow> string) \<Rightarrow> string \<Rightarrow> nat \<Rightarrow> string list \<Rightarrow> header \<Rightarrow> header" where
  "merge_lines canon k i [] w = w"
| "merge_lines canon k i (line # lines) w =
     merge_lines canon k (Suc i) lines
       (if i = 0 then Header_Set canon w k line else Header_Add canon w k line)"

definition merge_entries :: "(string \<Rightarrow> string) \<Rightarrow> header_source \<Rightarrow> header \<Rightarrow> header" where
  "merge_entries canon header w = fold (\<lambda>(k, lines) w. merge_lines canon k 0 lines w) header w"

definition MergeResponseWriterHeaders ::
  "(string \<Rightarrow> string) \<Rightarrow> header \<Rightarrow> header_source list \<Rightarrow> header" where
  "MergeResponseWriterHeaders canon w headers = fold (merge_entries canon) headers w"

text \<open>
  For the statements about merging: the value list of the last source, in the order of
  application, that has the key; and the last value list that is not empty.
\<close>

fun last_source_value :: "string \<Rightarrow> header_source list \<Rightarrow> string list option" where
  "last_source_value k [] = None"
| "last_source_value k (header # headers) =
     (case last_source_value k headers of
        Some v \<Rightarrow> Some v
      | None \<Rightarrow> map_of header k)"

definition well_formed_source :: "header_source \<Rightarrow> bool" where
  "well_formed_source header = distinct (map fst header)"

definition source_keys :: "header_source list \<Rightarrow> string set" where
  "source_keys headers = fst ` (\<Union>header \<in> set headers. set header)"

section \<open>health/healthcheck.go\<close>

text \<open>
  What a probe observes and changes (the network, the clock) is a state of type \<open>'x\<close>
  that every probe takes and returns. \<^verbatim>\<open>net.DialTimeout\<close> and \<^verbatim>\<open>conn.Close\<close> belong
  to the Go library and are parameters. A \<^verbatim>\<open>time.Duration\<close> is its number of
  nanoseconds.
\<close>

type_synonym 'x check_func = "url \<Rightarrow> 'x \<Rightarrow> bool \<times> 'x"

record 'x net =
  DialTimeout :: "string \<Rightarrow> string \<Rightarrow> int \<Rightarrow> 'x \<Rightarrow> (error + nat) \<times> 'x"
  conn_Close :: "nat \<Rightarrow> 'x \<Rightarrow> 'x"

definition defaultHealthCheckTimeout :: int where
  "defaultHealthCheckTimeout = 10 * 1000000000"

definition defaultHealthCheckPeriod :: int where
  "defaultHealthCheckPeriod = 10 * 1000000000"

definition defaultHealthCheckFunc :: "'x net \<Rightarrow> 'x check_func" where
  "defaultHealthCheckFunc nt addr x =
     (case DialTimeout nt ''tcp'' (url_Host addr) defaultHealthCheckTimeout x of
        (Inl err, x') \<Rightarrow> (False, x')
      | (Inr conn, x') \<Rightarrow> (True, conn_Close nt conn x'))"

text \<open>
  The goroutine started by \<^verbatim>\<open>run\<close>: it is at its \<^verbatim>\<open>select\<close>, or it has taken a tick
  from the ticker and is about to run \<^verbatim>\<open>checkHealth\<close> (which needs the mutex), or it is
  gone; \<^verbatim>\<open>time.NewTicker\<close> panics in the goroutine for a period that is not positive.
\<close>

datatype loop_state = NoLoop | Selecting | TickTaken | TickerPanic

text \<open>
  The struct \<^verbatim>\<open>HealthCheck\<close> with the run-time state around it: the goroutine, the
  probes' world, and the channels (a channel is a number; \<open>next_chan\<close> is the next one
  \<^verbatim>\<open>make\<close> gives out, \<open>chan_sent\<close> lists the channels a value was sent on, in
  order, \<open>chan_closed\<close> is the set of closed channels). \<open>cancel = None\<close> is the nil
  channel. The mutex \<open>mu\<close> is what makes each of the operations below one step.
\<close>

record 'x HealthCheck =
  origin :: url
  check :: "'x check_func"
  period :: int
  cancel :: "nat option"
  isAvailable :: bool
  loop :: loop_state
  world :: 'x
  next_chan :: nat
  chan_sent :: "nat list"
  chan_closed :: "nat set"

datatype 'a outcome = Done 'a | Blocked | Panic panic_value

definition run :: "'x HealthCheck \<Rightarrow> 'x HealthCheck" where
  "run h = h\<lparr>loop := (if period h \<le> 0 then TickerPanic else Selecting)\<rparr>"

definition NewHealthCheck :: "'x net \<Rightarrow> url \<Rightarrow> 'x \<Rightarrow> 'x HealthCheck" where
  "NewHealthCheck nt org x =
     (let (b, x') = defaultHealthCheckFunc nt org x
      in run \<lparr>origin = org, check = defaultHealthCheckFunc nt, period = defaultHealthCheckPeriod,
              cancel = Some 0, isAvailable = b, loop = NoLoop, world = x',
              next_chan = 1, chan_sent = [], chan_closed = {}\<rparr>)"

definition IsAvailable :: "'x HealthCheck \<Rightarrow> bool" where
  "IsAvailable h = isAvailable h"

text \<open>
  \<^verbatim>\<open>stop\<close>, called with the mutex held. The send on the unbuffered channel returns
  when the goroutine receives at its \<^verbatim>\<open>select\<close>, and the goroutine then returns. A
  goroutine that has taken a tick waits for the mutex the caller holds, so the send never
  returns; nor does it with no goroutine to receive. Sending on, or closing, a closed
  channel panics.
\<close>

definition stop :: "'x HealthCheck \<Rightarrow> 'x HealthCheck outcome" where
  "stop h =
     (case cancel h of
        None \<Rightarrow> Done h
      | Some c \<Rightarrow>
          if c \<in> chan_closed h then Panic (PanicValue ''send on closed channel'')
          else if loop h \<noteq> Selecting then Blocked
          else Done (h\<lparr>loop := NoLoop, chan_sent := chan_sent h @ [c],
                       chan_closed := insert c (chan_closed h), cancel := None\<rparr>))"

definition Stop :: "'x HealthCheck \<Rightarrow> 'x HealthCheck outcome" where
  "Stop h = stop h"

definition SetCheckFunc :: "'x HealthCheck \<Rightarrow> 'x check_func \<Rightarrow> int \<Rightarrow> 'x HealthCheck outcome" where
  "SetCheckFunc h chk per =
     (case stop h of
        Blocked \<Rightarrow> Blocked
      | Panic v \<Rightarrow> Panic v
      | Done h1 \<Rightarrow>
          (let h2 = h1\<lparr>check := chk\<rparr>;
               h3 = h2\<lparr>period := per\<rparr>;
               h4 = h3\<lparr>cancel := Some (next_chan h3), next_chan := Suc (next_chan h3)\<rparr>;
               (b, x') = check h4 (origin h4) (world h4);
               h5 = h4\<lparr>isAvailable := b, world := x'\<rparr>
           in Done (run h5)))"

text \<open>
  The goroutine's own steps: the ticker fires and the \<^verbatim>\<open>select\<close> takes the tick;
  \<^verbatim>\<open>checkHealth\<close> takes the mutex, probes and stores the result.
\<close>

definition tick :: "'x HealthCheck \<Rightarrow> 'x HealthCheck" where
  "tick h = (if loop h = Selecting then h\<lparr>loop := TickTaken\<rparr> else h)"

definition checkHealth :: "'x HealthCheck \<Rightarrow> 'x HealthCheck" where
  "checkHealth h =
     (if loop h = TickTaken
      then (let (b, x') = check h (origin h) (world h)
            in h\<lparr>isAvailable := b, world := x', loop := Selecting\<rparr>)
      else h)"

text \<open>The states a monitor can be in: after its construction and any steps that return.\<close>

inductive reachable :: "'x net \<Rightarrow> 'x HealthCheck \<Rightarrow> bool" for nt :: "'x net" where
  r_new: "reachable nt (NewHealthCheck nt org x)"
| r_tick: "reachable nt h \<Longrightarrow> reachable nt (tick h)"
| r_check: "reachable nt h \<Longrightarrow> reachable nt (checkHealth h)"
| r_stop: "reachable nt h \<Longrightarrow> Stop h = Done h' \<Longrightarrow> reachable nt h'"
| r_set: "reachable nt h \<Longrightarrow> SetCheckFunc h chk per = Done h' \<Longrightarrow> reachable nt h'"

section \<open>The dispatcher (ReverseProxyMux)\<close>

text \<open>
  The response writer is a state of type \<open>'w\<close>; whoever writes to it takes it and
  returns it. A call either returns or panics.
\<close>

datatype 'w exit = Returned 'w | Panicked panic_value

type_synonym 'w HttpErrorHandler = "'w \<Rightarrow> request \<Rightarrow> error \<Rightarrow> 'w"

type_synonym 'w Handler = "'w \<Rightarrow> request \<Rightarrow> 'w"

type_synonym RoundTripper = "request \<Rightarrow> error + response"

text \<open>
  The collaborators that are not code of this repository, as parameters:
  \<^item> \<open>router_match pattern path\<close>: whether \<^verbatim>\<open>httprouter\<close> matches the URL path against
    the registered pattern;
  \<^item> \<open>router_unmatched\<close>: what \<^verbatim>\<open>httprouter\<close> does with a request that no registered
    handler matches (redirect, OPTIONS, 405 or 404 reply), given its \<^verbatim>\<open>NotFound\<close> and
    \<^verbatim>\<open>MethodNotAllowed\<close> handlers and the registered (method, pattern) pairs;
  \<^item> \<open>rewrite_NewRule pattern to\<close>: \<^verbatim>\<open>rewrite.NewRule\<close>, an error or the rule, the rule
    being what its \<^verbatim>\<open>Rewrite\<close> does to the request;
  \<^item> \<open>Director\<close>: the outgoing request that the proxy made by
    \<^verbatim>\<open>httputil.NewSingleHostReverseProxy(remote)\<close> builds from the incoming one;
  \<^item> \<open>DefaultTransport\<close>: \<^verbatim>\<open>http.DefaultTransport\<close>;
  \<^item> \<open>defaultErrorHandler\<close>: the proxy's own error handler (a 502 reply);
  \<^item> \<open>relay\<close>: the proxy copying the response to the writer, which may panic
    (\<^verbatim>\<open>http.ErrAbortHandler\<close>);
  \<^item> \<open>Errorf_v\<close>: \<^verbatim>\<open>fmt.Errorf("%v", val)\<close> of a recovered panic value.
\<close>

record 'w collaborators =
  router_match :: "string \<Rightarrow> string \<Rightarrow> bool"
  router_unmatched ::
    "'w Handler option \<Rightarrow> 'w Handler option \<Rightarrow> (string \<times> string) list \<Rightarrow> 'w \<Rightarrow> request \<Rightarrow> 'w"
  rewrite_NewRule :: "string \<Rightarrow> string \<Rightarrow> error + (request \<Rightarrow> request)"
  Director :: "url \<Rightarrow> request \<Rightarrow> request"
  DefaultTransport :: RoundTripper
  defaultErrorHandler :: "'w HttpErrorHandler"
  relay :: "'w \<Rightarrow> response \<Rightarrow> 'w exit"
  Errorf_v :: "panic_value \<Rightarrow> error"

text \<open>
  The struct \<^verbatim>\<open>ReverseProxyMux\<close>. Of \<^verbatim>\<open>proxy\<close> and \<^verbatim>\<open>router\<close> the record keeps the
  fields that \<^verbatim>\<open>ServeHTTP\<close> assigns: \<open>proxy_Transport\<close>, \<open>proxy_ErrorHandler\<close>,
  \<open>router_NotFound\<close>, \<open>router_MethodNotAllowed\<close>, and \<open>router_PanicHandler\<close> (whether
  the closure of line 90 is installed); \<open>routes\<close> are the handlers registered with the
  router, each the closure of \<^verbatim>\<open>HandlePath\<close> over its route. \<^verbatim>\<open>proxy.ModifyResponse\<close> is
  assigned the same closure by every call and is \<open>modifyResponse\<close> below. The exported
  fields \<^verbatim>\<open>RequestHeader\<close> and \<^verbatim>\<open>ModifyResponse\<close> carry the prefix \<open>pm_\<close>, the names
  being taken by the fields of \<open>Route\<close>. The counter \<open>load\<close> is an \<^verbatim>\<open>int32\<close>.
\<close>

record 'w ReverseProxyMux =
  remote :: url
  routes :: "(string \<times> string \<times> Route) list"
  modifiers :: "string \<rightharpoonup> (string \<rightharpoonup> ResponseModifier)"
  load :: "32 word"
  proxy_Transport :: "RoundTripper option"
  proxy_ErrorHandler :: "'w HttpErrorHandler option"
  router_NotFound :: "'w Handler option"
  router_MethodNotAllowed :: "'w Handler option"
  router_PanicHandler :: bool
  Transport :: "RoundTripper option"
  pm_RequestHeader :: header_source
  pm_ModifyResponse :: "ResponseModifier option"
  ErrorHandler :: "'w HttpErrorHandler option"
  NotFoundHandler :: "'w Handler option"
  MethodNotAllowedHandler :: "'w Handler option"

definition New :: "url \<Rightarrow> 'w ReverseProxyMux" where
  "New remoteUrl =
     \<lparr>remote = remoteUrl, routes = [], modifiers = Map.empty, load = 0,
      proxy_Transport = None, proxy_ErrorHandler = None,
      router_NotFound = None, router_MethodNotAllowed = None, router_PanicHandler = False,
      Transport = None, pm_RequestHeader = [], pm_ModifyResponse = None,
      ErrorHandler = None, NotFoundHandler = None, MethodNotAllowedHandler = None\<rparr>"

text \<open>
  \<^verbatim>\<open>pm.modifiers[method][path]\<close> with its \<^verbatim>\<open>ok\<close>: reading a missing inner map gives
  the nil map, and reading the nil map gives \<^verbatim>\<open>ok = false\<close>.
\<close>

definition modifiers_lookup ::
  "(string \<rightharpoonup> (string \<rightharpoonup> ResponseModifier)) \<Rightarrow> string \<Rightarrow> string \<Rightarrow> ResponseModifier option" where
  "modifiers_lookup ms method path =
     (case ms method of None \<Rightarrow> None | Some inner \<Rightarrow> inner path)"

text \<open>The closure assigned to \<^verbatim>\<open>pm.proxy.ModifyResponse\<close> (lines 68 to 80).\<close>

definition modifyResponse :: "'w ReverseProxyMux \<Rightarrow> ResponseModifier" where
  "modifyResponse pm r =
     (case (case pm_ModifyResponse pm of None \<Rightarrow> (r, None) | Some global \<Rightarrow> global r) of
        (r1, Some err) \<Rightarrow> (r1, Some err)
      | (r1, None) \<Rightarrow>
          (case modifiers_lookup (modifiers pm) (req_Method (resp_Request r1))
                  (url_Path (req_URL (resp_Request r1))) of
             None \<Rightarrow> (r1, None)
           | Some modifier \<Rightarrow>
               (case modifier r1 of
                  (r2, Some err) \<Rightarrow> (r2, Some err)
                | (r2, None) \<Rightarrow> (r2, None))))"

text \<open>
  \<^verbatim>\<open>httputil.ReverseProxy.ServeHTTP\<close>, as far as it calls back into this repository:
  it builds the outgoing request, sends it through the transport, runs
  \<^verbatim>\<open>ModifyResponse\<close> on the response and relays it; a transport error and a
  \<^verbatim>\<open>ModifyResponse\<close> error go to its \<^verbatim>\<open>ErrorHandler\<close>, or to its default error handler
  when that field is nil.
\<close>

definition getErrorHandler :: "'w collaborators \<Rightarrow> 'w ReverseProxyMux \<Rightarrow> 'w HttpErrorHandler" where
  "getErrorHandler ext pm =
     (case proxy_ErrorHandler pm of Some eh \<Rightarrow> eh | None \<Rightarrow> defaultErrorHandler ext)"

definition proxy_ServeHTTP ::
  "'w collaborators \<Rightarrow> 'w ReverseProxyMux \<Rightarrow> 'w \<Rightarrow> request \<Rightarrow> 'w exit" where
  "proxy_ServeHTTP ext pm w r =
     (let outreq = Director ext (remote pm) r;
          transport = (case proxy_Transport pm of Some t \<Rightarrow> t | None \<Rightarrow> DefaultTransport ext)
      in case transport outreq of
           Inl err \<Rightarrow> Returned (getErrorHandler ext pm w outreq err)
         | Inr res \<Rightarrow>
             (case modifyResponse pm res of
                (res', Some err) \<Rightarrow> Returned (getErrorHandler ext pm w outreq err)
              | (res', None) \<Rightarrow> relay ext w res'))"

text \<open>
  The handler that \<^verbatim>\<open>HandlePath\<close> registers (lines 101 to 116), in two parts. Lines 102
  to 104 are \<open>setForwarded\<close>: both header keys are written in canonical form, so
  \<^verbatim>\<open>Header.Set\<close> stores under the key as written. Lines 105 to 113 follow in
  \<open>prepareRequest\<close>, which gives the request handed to \<^verbatim>\<open>pm.proxy.ServeHTTP\<close>, or the
  error of \<^verbatim>\<open>rewrite.NewRule\<close> together with the request as it is then.
\<close>

definition setForwarded :: "'w ReverseProxyMux \<Rightarrow> request \<Rightarrow> request" where
  "setForwarded pm r =
     (let r = r\<lparr>req_Header := (req_Header r)(''X-Forwarded-Proto'' \<mapsto> [url_Scheme (req_URL r)])\<rparr>;
          r = r\<lparr>req_Header := (req_Header r)(''X-Forwarded-Host'' \<mapsto> [req_Host r])\<rparr>;
          r = r\<lparr>req_Host := url_Host (remote pm)\<rparr>
      in r)"

definition prepareRequest ::
  "'w collaborators \<Rightarrow> 'w ReverseProxyMux \<Rightarrow> Route \<Rightarrow> request \<Rightarrow> (error \<times> request) + request" where
  "prepareRequest ext pm route r =
     (let r = setForwarded pm r
      in if RewritePath route \<noteq> []
         then (case rewrite_NewRule ext (Path route) (RewritePath route) of
                 Inl err \<Rightarrow> Inl (err, r)
               | Inr rewriter \<Rightarrow>
                   Inr (MergeRequestHeaders (rewriter r) [pm_RequestHeader pm, RequestHeader route]))
         else Inr (MergeRequestHeaders r [pm_RequestHeader pm, RequestHeader route]))"

definition routeHandler ::
  "'w collaborators \<Rightarrow> 'w ReverseProxyMux \<Rightarrow> Route \<Rightarrow> 'w \<Rightarrow> request \<Rightarrow> 'w exit" where
  "routeHandler ext pm route w r =
     (case prepareRequest ext pm route r of
        Inl (err, r') \<Rightarrow>
          (case ErrorHandler pm of
             None \<Rightarrow> Panicked NilFuncCall
           | Some eh \<Rightarrow> Returned (eh w r' err))
      | Inr r' \<Rightarrow> proxy_ServeHTTP ext pm w r')"

text \<open>
  \<^verbatim>\<open>HandlePath\<close>: for every method of the route the handler is registered with the
  router, and a route that has a modifier stores it under the method and the route's
  path. The panics of \<^verbatim>\<open>httprouter\<close> at registration (a path that does not start with a
  slash, a conflicting or repeated pattern) are outside the model.
\<close>

fun HandlePath_methods :: "'w ReverseProxyMux \<Rightarrow> Route \<Rightarrow> string list \<Rightarrow> 'w ReverseProxyMux" where
  "HandlePath_methods pm route [] = pm"
| "HandlePath_methods pm route (method # methods) =
     (let pm = pm\<lparr>routes := routes pm @ [(method, Path route, route)]\<rparr>;
          pm = (case ModifyResponse route of
                  None \<Rightarrow> pm
                | Some modifier \<Rightarrow>
                    (let inner = (case modifiers pm method of None \<Rightarrow> Map.empty | Some m \<Rightarrow> m)
                     in pm\<lparr>modifiers := (modifiers pm)(method \<mapsto> inner(Path route \<mapsto> modifier))\<rparr>))
      in HandlePath_methods pm route methods)"

definition HandlePath :: "'w ReverseProxyMux \<Rightarrow> Route \<Rightarrow> 'w ReverseProxyMux" where
  "HandlePath pm route = HandlePath_methods pm route (Method route)"

definition PassPath :: "'w ReverseProxyMux \<Rightarrow> string \<Rightarrow> string \<Rightarrow> 'w ReverseProxyMux" where
  "PassPath pm methods path = HandlePath pm (NewRoute methods path)"

definition RewritePath_route :: "'w ReverseProxyMux \<Rightarrow> string \<Rightarrow> string \<Rightarrow> string \<Rightarrow> 'w ReverseProxyMux" where
  "RewritePath_route pm methods sourcePath targetPath =
     (let route = NewRoute methods sourcePath;
          route = route\<lparr>RewritePath := targetPath\<rparr>
      in HandlePath pm route)"

text \<open>
  \<^verbatim>\<open>httprouter.Router.ServeHTTP\<close>: the handler registered for the request's method whose
  pattern matches the path runs. With a \<^verbatim>\<open>PanicHandler\<close> installed, a panic of the
  handler is recovered and passed to it; the closure of line 90 then calls
  \<^verbatim>\<open>pm.ErrorHandler\<close> as it is at that moment. The hook gets the router's request; the
  changes the handler made to it in place are not tracked on this path.
\<close>

definition router_lookup :: "'w collaborators \<Rightarrow> 'w ReverseProxyMux \<Rightarrow> request \<Rightarrow> Route option" where
  "router_lookup ext pm r =
     map_option (\<lambda>(method, path, route). route)
       (find (\<lambda>(method, path, route).
                method = req_Method r \<and> router_match ext path (url_Path (req_URL r)))
          (routes pm))"

definition router_recv ::
  "'w collaborators \<Rightarrow> 'w ReverseProxyMux \<Rightarrow> 'w \<Rightarrow> request \<Rightarrow> 'w exit \<Rightarrow> 'w exit" where
  "router_recv ext pm w r out =
     (case out of
        Returned w' \<Rightarrow> Returned w'
      | Panicked val \<Rightarrow>
          if router_PanicHandler pm
          then (case ErrorHandler pm of
                  None \<Rightarrow> Panicked NilFuncCall
                | Some eh \<Rightarrow> Returned (eh w r (Errorf_v ext val)))
          else Panicked val)"

definition router_ServeHTTP ::
  "'w collaborators \<Rightarrow> 'w ReverseProxyMux \<Rightarrow> 'w \<Rightarrow> request \<Rightarrow> 'w exit" where
  "router_ServeHTTP ext pm w r =
     router_recv ext pm w r
       (case router_lookup ext pm r of
          Some route \<Rightarrow> routeHandler ext pm route w r
        | None \<Rightarrow>
            Returned (router_unmatched ext (router_NotFound pm) (router_MethodNotAllowed pm)
                        (map (\<lambda>(method, path, route). (method, path)) (routes pm)) w r))"

text \<open>
  \<^verbatim>\<open>ServeHTTP\<close>. The counter goes up by \<^verbatim>\<open>atomic.AddInt32(&pm.load, 1)\<close> on entry; the
  deferred \<^verbatim>\<open>atomic.AddInt32(&pm.load, -1)\<close> runs when the function is left, by a return
  or by a panic that passes through. \<open>serve_enter\<close> is the part before the router is
  called, \<open>serve_leave\<close> the deferred call.
\<close>

definition serve_enter :: "'w ReverseProxyMux \<Rightarrow> 'w ReverseProxyMux" where
  "serve_enter pm =
     (let pm = pm\<lparr>load := load pm + 1\<rparr>;
          pm = (case Transport pm of None \<Rightarrow> pm | Some t \<Rightarrow> pm\<lparr>proxy_Transport := Some t\<rparr>);
          pm = pm\<lparr>router_NotFound := NotFoundHandler pm\<rparr>;
          pm = pm\<lparr>router_MethodNotAllowed := MethodNotAllowedHandler pm\<rparr>;
          pm = (case ErrorHandler pm of
                  None \<Rightarrow> pm
                | Some eh \<Rightarrow> pm\<lparr>proxy_ErrorHandler := Some eh, router_PanicHandler := True\<rparr>)
      in pm)"

definition serve_leave :: "'w ReverseProxyMux \<Rightarrow> 'w ReverseProxyMux" where
  "serve_leave pm = pm\<lparr>load := load pm - 1\<rparr>"

definition ServeHTTP ::
  "'w collaborators \<Rightarrow> 'w ReverseProxyMux \<Rightarrow> 'w \<Rightarrow> request \<Rightarrow> 'w ReverseProxyMux \<times> 'w exit" where
  "ServeHTTP ext pm w r =
     (let pm = serve_enter pm;
          out = router_ServeHTTP ext pm w r
      in (serve_leave pm, out))"

definition GetLoad :: "'w ReverseProxyMux \<Rightarrow> int" where
  "GetLoad pm = sint (load pm)"

text \<open>
  Requests served at the same time: each request performs its entry, then, at any later
  moment, its leave; the atomic additions of different requests interleave in any order.
  A schedule is the list of these steps, each naming its request. \<open>inflight\<close> are the
  requests that have entered and not left.
\<close>

datatype step = Enter nat | Leave nat

fun sched_ok :: "nat set \<Rightarrow> nat set \<Rightarrow> step list \<Rightarrow> bool" where
  "sched_ok fl dn [] = True"
| "sched_ok fl dn (Enter i # ss) = (i \<notin> fl \<and> i \<notin> dn \<and> sched_ok (insert i fl) dn ss)"
| "sched_ok fl dn (Leave i # ss) = (i \<in> fl \<and> sched_ok (fl - {i}) (insert i dn) ss)"

fun inflight :: "nat set \<Rightarrow> step list \<Rightarrow> nat set" where
  "inflight fl [] = fl"
| "inflight fl (Enter i # ss) = inflight (insert i fl) ss"
| "inflight fl (Leave i # ss) = inflight (fl - {i}) ss"

fun run_steps :: "'w ReverseProxyMux \<Rightarrow> step list \<Rightarrow> 'w ReverseProxyMux" where
  "run_steps pm [] = pm"
| "run_steps pm (Enter i # ss) = run_steps (serve_enter pm) ss"
| "run_steps pm (Leave i # ss) = run_steps (serve_leave pm) ss"

section \<open>Method expansion\<close>

lemma strings_Split_no_sep: "sep \<notin> set s \<Longrightarrow> strings_Split s sep = [s]"
  by (simp add: strings_Split.simps)

lemma takeWhile_upto_sep:
  "sep \<notin> set t \<Longrightarrow> takeWhile (\<lambda>c. c \<noteq> sep) (t @ sep # rest) = t"
  by (induction t) auto

lemma dropWhile_upto_sep:
  "sep \<notin> set t \<Longrightarrow> dropWhile (\<lambda>c. c \<noteq> sep) (t @ sep # rest) = sep # rest"
  by (induction t) auto

lemma strings_Split_token:
  assumes "sep \<notin> set t"
  shows "strings_Split (t @ sep # rest) sep = t # strings_Split rest sep"
proof -
  have "sep \<in> set (t @ sep # rest)" by simp
  then show ?thesis
    by (subst strings_Split.simps)
       (simp only: takeWhile_upto_sep [OF assms] dropWhile_upto_sep [OF assms] if_True list.sel)
qed

lemma strings_Split_bar_joined:
  "ts \<noteq> [] \<Longrightarrow> \<forall>t \<in> set ts. sep \<notin> set t \<Longrightarrow>
   sep = CHR ''|'' \<Longrightarrow> strings_Split (bar_joined ts) sep = ts"
proof (induction ts rule: bar_joined.induct)
  case 1
  then show ?case by simp
next
  case (2 t)
  then show ?case by (simp add: strings_Split_no_sep)
next
  case (3 t u ts)
  then have "strings_Split (bar_joined (u # ts)) sep = u # ts" by simp
  moreover have "sep \<notin> set t" using 3 by simp
  ultimately show ?case using 3(4) by (simp add: strings_Split_token)
qed

lemma bar_joined_has_bar: "CHR ''|'' \<in> set (bar_joined (t # u # ts))"
  by simp

text \<open>
  Claim C9. The expansion of a method specification: \<^verbatim>\<open>*\<close> gives the seven verbs GET,
  HEAD, OPTIONS, POST, PUT, PATCH, DELETE in this order; \<^verbatim>\<open>A|B|C\<close> gives \<open>[A, B, C]\<close>
  in the order written, and so does any longer bar-separated text of tokens; a single
  token with no bar in it, other than the wildcard \<^verbatim>\<open>*\<close> itself, gives the list of that
  one token.
\<close>

theorem methodStringToSlice_expansion:
  "methodStringToSlice ''*'' = [''GET'', ''HEAD'', ''OPTIONS'', ''POST'', ''PUT'', ''PATCH'', ''DELETE'']
   \<and> (\<forall>a b c. CHR ''|'' \<notin> set a \<and> CHR ''|'' \<notin> set b \<and> CHR ''|'' \<notin> set c \<longrightarrow>
         methodStringToSlice (a @ ''|'' @ b @ ''|'' @ c) = [a, b, c])
   \<and> (\<forall>ts. 2 \<le> length ts \<and> (\<forall>t \<in> set ts. CHR ''|'' \<notin> set t) \<longrightarrow>
         methodStringToSlice (bar_joined ts) = ts)
   \<and> (\<forall>t. CHR ''|'' \<notin> set t \<and> t \<noteq> ''*'' \<longrightarrow> methodStringToSlice t = [t])"
proof (intro conjI allI impI)
  show "methodStringToSlice ''*'' = [''GET'', ''HEAD'', ''OPTIONS'', ''POST'', ''PUT'', ''PATCH'', ''DELETE'']"
    by (simp add: methodStringToSlice_def)
next
  fix a b c :: string
  assume abc: "CHR ''|'' \<notin> set a \<and> CHR ''|'' \<notin> set b \<and> CHR ''|'' \<notin> set c"
  have "CHR ''|'' \<in> set (a @ ''|'' @ b @ ''|'' @ c)" by simp
  then have ne: "a @ ''|'' @ b @ ''|'' @ c \<noteq> ''*''" by auto
  have "strings_Split (a @ CHR ''|'' # b @ CHR ''|'' # c) (CHR ''|'') = [a, b, c]"
    using abc by (simp add: strings_Split_token strings_Split_no_sep)
  then show "methodStringToSlice (a @ ''|'' @ b @ ''|'' @ c) = [a, b, c]"
    using ne by (simp add: methodStringToSlice_def)
next
  fix ts :: "string list"
  assume h: "2 \<le> length ts \<and> (\<forall>t \<in> set ts. CHR ''|'' \<notin> set t)"
  then obtain t u us where ts: "ts = t # u # us"
    by (cases ts; cases "tl ts") auto
  have "CHR ''|'' \<in> set (bar_joined ts)" unfolding ts by (rule bar_joined_has_bar)
  then have ne: "bar_joined ts \<noteq> ''*''" by auto
  have "ts \<noteq> []" using ts by simp
  then have "strings_Split (bar_joined ts) (CHR ''|'') = ts"
    using h by (simp add: strings_Split_bar_joined)
  then show "methodStringToSlice (bar_joined ts) = ts"
    using ne by (simp add: methodStringToSlice_def)
next
  fix t :: string
  assume "CHR ''|'' \<notin> set t \<and> t \<noteq> ''*''"
  then show "methodStringToSlice t = [t]"
    by (simp add: methodStringToSlice_def strings_Split_no_sep)
qed

theorem methodStringToSlice_expansion_witness:
  "methodStringToSlice ''GET|POST|PUT'' = [''GET'', ''POST'', ''PUT'']
   \<and> methodStringToSlice ''HEAD|GET|POST|DELETE'' = [''HEAD'', ''GET'', ''POST'', ''DELETE'']
   \<and> methodStringToSlice ''GET'' = [''GET'']"
proof -
  note e = methodStringToSlice_expansion
  have a: "methodStringToSlice (''GET'' @ ''|'' @ ''POST'' @ ''|'' @ ''PUT'') = [''GET'', ''POST'', ''PUT'']"
    using e [THEN conjunct2, THEN conjunct1, rule_format, of "''GET''" "''POST''" "''PUT''"] by simp
  have b: "methodStringToSlice (bar_joined [''HEAD'', ''GET'', ''POST'', ''DELETE''])
             = [''HEAD'', ''GET'', ''POST'', ''DELETE'']"
    using e [THEN conjunct2, THEN conjunct2, THEN conjunct1, rule_format,
             of "[''HEAD'', ''GET'', ''POST'', ''DELETE'']"] by simp
  have c: "methodStringToSlice ''GET'' = [''GET'']"
    using e [THEN conjunct2, THEN conjunct2, THEN conjunct2, rule_format, of "''GET''"] by simp
  from a b c show ?thesis by simp
qed

end
